theory Spec2Isabelle
  imports Main
begin

section \<open>Dataset-loader dispatch (finetune/datasets/factory.py)\<close>

text \<open>
  \<^verbatim>\<open>DatasetLoaderFactory.get_loader\<close> is one \<^verbatim>\<open>match\<close> statement over
  \<^verbatim>\<open>dataset_id\<close>. The enumeration \<^verbatim>\<open>DatasetId\<close> is declared in
  \<^verbatim>\<open>finetune/datasets/ids.py\<close>, which is not among the sources: its members here
  are the seven the \<^verbatim>\<open>match\<close> names, and \<open>OTHER_DATASET n\<close> stands for every
  further value, which the \<^verbatim>\<open>match\<close> sends to its wildcard case.
\<close>

datatype DatasetId =
    DYCK_LANGUAGE
  | SYNTHETIC_MMLU
  | WORD_SORTING
  | FINEWEB
  | SYNTHETIC_IF_EVAL
  | SYNTHETIC_1_SFT
  | CODEFORCES_COTS
  | OTHER_DATASET nat

text \<open>The exceptions the two source files raise themselves, and Python's own
  \<^verbatim>\<open>TypeError\<close> for a call that receives one keyword twice.\<close>

datatype error = NotImplementedError | ValueError | TypeError | OtherError

text \<open>
  The loader classes are imported from modules that are not among the sources. What a
  class does with the arguments it is called with, build a loader or raise, is
  therefore a parameter of the model: \<open>ctor c args\<close> is the result of calling the class
  \<open>c\<close> with the keyword arguments \<open>args\<close>, and the type \<open>'l\<close> of loaders is left open.
  A keyword argument is the seed, the dataset name, the set of hotkeys, or a value of
  \<^verbatim>\<open>dataset_kwargs\<close>. The constant \<^verbatim>\<open>FINEWEB_EDU_SCORE_2_NAME\<close> is imported as well
  and stays symbolic.
\<close>

datatype loader_class =
    DyckLoader
  | WordSortingLoader
  | HuggingFaceLoader
  | IFEvalLoader
  | Synthetic1SFTLoader
  | CodeforcesCOTSLoader

datatype dataset_name = FINEWEB_EDU_SCORE_2_NAME

datatype 'v argument =
    Seed_arg int
  | Name_arg dataset_name
  | Hotkeys_arg "string set"
  | Kwarg 'v

text \<open>
  Every branch calls a class with explicit keywords followed by
  \<^verbatim>\<open>**dataset_kwargs\<close>. Python refuses such a call with \<^verbatim>\<open>TypeError\<close>, before the
  class is entered, when the dictionary repeats one of the explicit keywords;
  otherwise the class receives the explicit keywords together with the entries of the
  dictionary (\<open>passed\<close>), and the call returns or raises what the class does.
\<close>

definition passed ::
  "(string \<times> 'v argument) list \<Rightarrow> (string \<rightharpoonup> 'v) \<Rightarrow> (string \<rightharpoonup> 'v argument)" where
  "passed explicit dataset_kwargs =
     (\<lambda>k. case map_of explicit k of
             Some a \<Rightarrow> Some a
           | None \<Rightarrow> map_option Kwarg (dataset_kwargs k))"

definition call ::
  "(loader_class \<Rightarrow> (string \<rightharpoonup> 'v argument) \<Rightarrow> error + 'l) \<Rightarrow> loader_class
    \<Rightarrow> (string \<times> 'v argument) list \<Rightarrow> (string \<rightharpoonup> 'v) \<Rightarrow> error + 'l" where
  "call ctor c explicit dataset_kwargs =
     (if list_ex (\<lambda>k. dataset_kwargs k \<noteq> None) (map fst explicit) then Inl TypeError
      else ctor c (passed explicit dataset_kwargs))"

fun get_loader ::
  "(loader_class \<Rightarrow> (string \<rightharpoonup> 'v argument) \<Rightarrow> error + 'l) \<Rightarrow> DatasetId \<Rightarrow> (string \<rightharpoonup> 'v)
    \<Rightarrow> int \<Rightarrow> string set \<Rightarrow> error + 'l" where
  "get_loader ctor DYCK_LANGUAGE dataset_kwargs seed validator_hotkeys =
     call ctor DyckLoader [(''random_seed'', Seed_arg seed)] dataset_kwargs"
| "get_loader ctor SYNTHETIC_MMLU dataset_kwargs seed validator_hotkeys =
     Inl NotImplementedError"
| "get_loader ctor WORD_SORTING dataset_kwargs seed validator_hotkeys =
     call ctor WordSortingLoader [(''random_seed'', Seed_arg seed)] dataset_kwargs"
| "get_loader ctor FINEWEB dataset_kwargs seed validator_hotkeys =
     call ctor HuggingFaceLoader
       [(''name'', Name_arg FINEWEB_EDU_SCORE_2_NAME), (''random_seed'', Seed_arg seed)]
       dataset_kwargs"
| "get_loader ctor SYNTHETIC_IF_EVAL dataset_kwargs seed validator_hotkeys =
     call ctor IFEvalLoader
       [(''random_seed'', Seed_arg seed), (''validator_hotkeys'', Hotkeys_arg validator_hotkeys)]
       dataset_kwargs"
| "get_loader ctor SYNTHETIC_1_SFT dataset_kwargs seed validator_hotkeys =
     call ctor Synthetic1SFTLoader [(''random_seed'', Seed_arg seed)] dataset_kwargs"
| "get_loader ctor CODEFORCES_COTS dataset_kwargs seed validator_hotkeys =
     call ctor CodeforcesCOTSLoader [(''random_seed'', Seed_arg seed)] dataset_kwargs"
| "get_loader ctor (OTHER_DATASET n) dataset_kwargs seed validator_hotkeys =
     Inl ValueError"


section \<open>Pushing a model (finetune/mining.py)\<close>

text \<open>
  \<^verbatim>\<open>push\<close> talks to services that are outside the repository: the chain
  (\<^verbatim>\<open>bt.subtensor\<close>, the metadata store), the model store, and the
  \<^verbatim>\<open>taoverse\<close> helpers. The model keeps the data \<^verbatim>\<open>push\<close> itself reads and
  writes, takes the behaviour of the services as parameters (the record \<open>world\<close> and
  the two store objects), and records every call to a service in a trace, in the order
  the calls are made. Calls to \<^verbatim>\<open>logging\<close> are left out of the trace.

  \<^verbatim>\<open>CompetitionId\<close> is an integer enumeration declared in
  \<^verbatim>\<open>competitions/data.py\<close>, and the table
  \<^verbatim>\<open>constants.MODEL_CONSTRAINTS_BY_COMPETITION_ID\<close> as well as
  \<^verbatim>\<open>constants.SUBNET_UID\<close> are declared in \<^verbatim>\<open>constants\<close>; none of them is among
  the sources, so the identifier is an integer and the table and the uid are fields of
  \<open>world\<close>.
\<close>

type_synonym CompetitionId = int

record ModelId =
  namespace :: string
  name :: string
  competition_id :: CompetitionId
  hash :: "string option"
  secure_hash :: "string option"

record 'p Model =
  model_id :: ModelId
  pt_model :: 'p

record ModelMetadata =
  metadata_id :: ModelId
  block :: nat

record wallet =
  hotkey_ss58_address :: string

text \<open>
  The two store objects. A call may raise (\<open>Inl\<close>, or \<open>Some\<close> error for a call that
  returns nothing). The chain does not answer the same way every time, so the calls
  made inside the retry loop take the number of the attempt as their first argument.
\<close>

record ('p, 'c) RemoteModelStore =
  upload_model :: "'p Model \<Rightarrow> 'c \<Rightarrow> error + ModelId"

record ModelMetadataStore =
  store_model_metadata :: "nat \<Rightarrow> string \<Rightarrow> ModelId \<Rightarrow> error option"
  retrieve_model_metadata :: "nat \<Rightarrow> nat \<Rightarrow> string \<Rightarrow> error + ModelMetadata option"

record ('p, 'c) world =
  MODEL_CONSTRAINTS_BY_COMPETITION_ID :: "CompetitionId \<rightharpoonup> 'c"
  SUBNET_UID :: nat
  validate_hf_repo_id :: "string \<Rightarrow> error + string \<times> string"
  get_hash_of_two_strings :: "string option \<Rightarrow> string \<Rightarrow> string"
  to_compressed_str :: "ModelId \<Rightarrow> string"
  get_uid_for_hotkey_on_subnet :: "nat \<Rightarrow> string \<Rightarrow> nat \<Rightarrow> error + nat"
  ChainModelMetadataStore :: "nat \<Rightarrow> wallet \<Rightarrow> ModelMetadataStore"
  HuggingFaceModelStore :: "('p, 'c) RemoteModelStore"
  update_repo_visibility :: "string \<Rightarrow> error option"

datatype 'p call =
    Subtensor
  | Upload_model "'p Model"
  | Store_model_metadata string ModelId
  | Get_uid_for_hotkey_on_subnet string nat
  | Retrieve_model_metadata nat string
  | Sleep int
  | Update_repo_visibility string

text \<open>What a call of \<^verbatim>\<open>push\<close> leaves behind: the exception it raised, if any, the
  model object (\<^verbatim>\<open>push\<close> overwrites its \<^verbatim>\<open>id\<close>), and the calls made.\<close>

record 'p outcome =
  raised :: "error option"
  model_after :: "'p Model"
  calls :: "'p call list"

text \<open>
  One pass through the body of \<^verbatim>\<open>try\<close> (lines 113 to 145): whether it reached
  \<^verbatim>\<open>break\<close>, and the calls it made. Any exception, the \<^verbatim>\<open>ValueError\<close> of the
  read-back check included, is caught by \<^verbatim>\<open>except Exception\<close>.
\<close>

definition attempt ::
  "('p, 'c) world \<Rightarrow> ModelMetadataStore \<Rightarrow> string \<Rightarrow> ModelId \<Rightarrow> nat \<Rightarrow> bool \<times> 'p call list" where
  "attempt w metadata_store hotkey model_id_with_hash k =
     (case store_model_metadata metadata_store k hotkey model_id_with_hash of
        Some e \<Rightarrow> (False, [Store_model_metadata hotkey model_id_with_hash])
      | None \<Rightarrow>
         (case get_uid_for_hotkey_on_subnet w k hotkey (SUBNET_UID w) of
            Inl e \<Rightarrow> (False, [Store_model_metadata hotkey model_id_with_hash,
                        Get_uid_for_hotkey_on_subnet hotkey (SUBNET_UID w)])
          | Inr uid \<Rightarrow>
             (let made = [Store_model_metadata hotkey model_id_with_hash,
                          Get_uid_for_hotkey_on_subnet hotkey (SUBNET_UID w),
                          Retrieve_model_metadata uid hotkey]
              in case retrieve_model_metadata metadata_store k uid hotkey of
                   Inl e \<Rightarrow> (False, made)
                 | Inr None \<Rightarrow> (False, made)
                 | Inr (Some model_metadata) \<Rightarrow>
                     (to_compressed_str w (metadata_id model_metadata)
                        = to_compressed_str w model_id_with_hash, made))))"

text \<open>
  The loop \<^verbatim>\<open>while True\<close> (lines 112 to 151) ends only when a pass reaches
  \<^verbatim>\<open>break\<close>; a pass that fails sleeps and tries again. It may run forever, so its
  result is an option: \<open>None\<close> is the loop that never ends.
\<close>

partial_function (option) commit_loop ::
  "('p, 'c) world \<Rightarrow> ModelMetadataStore \<Rightarrow> string \<Rightarrow> ModelId \<Rightarrow> int \<Rightarrow> nat \<Rightarrow> 'p call list
    \<Rightarrow> 'p call list option" where
  "commit_loop w metadata_store hotkey model_id_with_hash retry_delay_secs k made =
     (if fst (attempt w metadata_store hotkey model_id_with_hash k)
      then Some (made @ snd (attempt w metadata_store hotkey model_id_with_hash k))
      else commit_loop w metadata_store hotkey model_id_with_hash retry_delay_secs (Suc k)
             (made @ snd (attempt w metadata_store hotkey model_id_with_hash k)
                   @ [Sleep retry_delay_secs]))"

text \<open>
  \<^verbatim>\<open>push\<close> (lines 52 to 160). The table lookup is \<^verbatim>\<open>.get(competition_id, None)\<close>
  followed by \<^verbatim>\<open>if not model_constraints\<close>; a constraints object is truthy, so the
  test holds exactly when the table has no entry.
\<close>

definition finish_push ::
  "('p, 'c) world \<Rightarrow> 'p Model \<Rightarrow> string \<Rightarrow> bool \<Rightarrow> 'p call list \<Rightarrow> 'p outcome" where
  "finish_push w model repo update_visibility made =
     (if update_visibility
      then \<lparr>raised = update_repo_visibility w repo, model_after = model,
             calls = made @ [Update_repo_visibility repo]\<rparr>
      else \<lparr>raised = None, model_after = model, calls = made\<rparr>)"

definition push ::
  "('p, 'c) world \<Rightarrow> 'p Model \<Rightarrow> string \<Rightarrow> CompetitionId \<Rightarrow> wallet \<Rightarrow> int \<Rightarrow> bool
    \<Rightarrow> ModelMetadataStore option \<Rightarrow> ('p, 'c) RemoteModelStore option \<Rightarrow> 'p outcome option" where
  "push w model repo cid wal retry_delay_secs update_visibility metadata_store remote_model_store =
     (let subnet_uid = SUBNET_UID w;
          metadata_store' = (case metadata_store of
                               None \<Rightarrow> ChainModelMetadataStore w subnet_uid wal
                             | Some s \<Rightarrow> s);
          remote_model_store' = (case remote_model_store of
                                   None \<Rightarrow> HuggingFaceModelStore w
                                 | Some s \<Rightarrow> s)
      in case MODEL_CONSTRAINTS_BY_COMPETITION_ID w cid of
           None \<Rightarrow> Some \<lparr>raised = Some ValueError, model_after = model, calls = [Subtensor]\<rparr>
         | Some model_constraints \<Rightarrow>
            (case validate_hf_repo_id w repo of
               Inl e \<Rightarrow> Some \<lparr>raised = Some e, model_after = model, calls = [Subtensor]\<rparr>
             | Inr (ns, nm) \<Rightarrow>
                (let model' = model\<lparr>model_id :=
                       \<lparr>namespace = ns, name = nm, competition_id = cid,
                        hash = None, secure_hash = None\<rparr>\<rparr>
                 in case upload_model remote_model_store' model' model_constraints of
                      Inl e \<Rightarrow> Some \<lparr>raised = Some e, model_after = model',
                                     calls = [Subtensor, Upload_model model']\<rparr>
                    | Inr uploaded_id \<Rightarrow>
                       (let model_id_with_hash = uploaded_id\<lparr>secure_hash :=
                              Some (get_hash_of_two_strings w (hash uploaded_id)
                                      (hotkey_ss58_address wal))\<rparr>
                        in map_option (finish_push w model' repo update_visibility)
                             (commit_loop w metadata_store' (hotkey_ss58_address wal)
                                model_id_with_hash retry_delay_secs 0
                                [Subtensor, Upload_model model'])))))"


section \<open>The rule factory of the instruction-following evaluation\<close>

text \<open>
  The modules \<^verbatim>\<open>finetune/eval/if_eval/rule.py\<close>, \<^verbatim>\<open>keywords.py\<close>,
  \<^verbatim>\<open>version.py\<close> and \<^verbatim>\<open>rule_factory.py\<close> are not among the sources; only the test
  module \<^verbatim>\<open>test_rule_factory.py\<close>, which calls them, is. The definitions of this
  section follow the specification's description of these modules, and the names the
  test module uses.
\<close>

text \<open>Modelled from the spec: the enumeration \<^verbatim>\<open>RuleId\<close> (rule.py is missing). The
  three keyword-based kinds are the ones the specification and the tests name;
  \<open>OTHER_RULE k\<close> stands for the "other structural/formatting kinds".\<close>

datatype RuleId =
    KEYWORD_INCLUSION
  | KEYWORD_FREQUENCY
  | KEYWORD_FORBIDDEN
  | OTHER_RULE nat

text \<open>Modelled from the spec: the enumeration \<^verbatim>\<open>IfEvalVersion\<close> (version.py is
  missing), "an enumerated tag {NONE, V1, V2, ...}".\<close>

datatype IfEvalVersion = NONE | V1 | V2

text \<open>Modelled from the spec: the rule classes (rule.py and keywords.py are missing).
  A keyword rule is built "from explicit parameters (e.g., a list of keywords, or a
  list of (keyword, target-count) pairs)", as the tests build
  \<^verbatim>\<open>KeywordInclusionRule(["cat"])\<close>, \<^verbatim>\<open>KeywordFrequencyRule([("cat", 1)])\<close> and
  \<^verbatim>\<open>KeywordForbiddenRule(["cat"])\<close>. A rule of another kind carries its kind and one
  parameter. \<open>DummyRule\<close> is the sentinel that "carries a RuleId".\<close>

datatype Rule =
    KeywordInclusionRule "string list"
  | KeywordFrequencyRule "(string \<times> nat) list"
  | KeywordForbiddenRule "string list"
  | OtherRule RuleId nat
  | DummyRule RuleId

text \<open>Modelled from the spec: the field \<^verbatim>\<open>rule_id\<close> of a rule (rule.py is missing).\<close>

fun rule_id :: "Rule \<Rightarrow> RuleId" where
  "rule_id (KeywordInclusionRule ks) = KEYWORD_INCLUSION"
| "rule_id (KeywordFrequencyRule kts) = KEYWORD_FREQUENCY"
| "rule_id (KeywordForbiddenRule ks) = KEYWORD_FORBIDDEN"
| "rule_id (OtherRule i p) = i"
| "rule_id (DummyRule i) = i"

text \<open>Modelled from the spec: \<^verbatim>\<open>get_keywords()\<close> (rule.py and keywords.py are
  missing), "returning the ordered list of distinct keyword strings the instance is
  anchored to; non-keyword kinds return an empty list".\<close>

fun get_keywords :: "Rule \<Rightarrow> string list" where
  "get_keywords (KeywordInclusionRule ks) = ks"
| "get_keywords (KeywordFrequencyRule kts) = map fst kts"
| "get_keywords (KeywordForbiddenRule ks) = ks"
| "get_keywords (OtherRule i p) = []"
| "get_keywords (DummyRule i) = []"

text \<open>Modelled from the spec: the test \<^verbatim>\<open>isinstance(rule, DummyRule)\<close> of the test
  module (rule_factory.py, which declares \<^verbatim>\<open>DummyRule\<close>, is missing).\<close>

fun is_dummy :: "Rule \<Rightarrow> bool" where
  "is_dummy (DummyRule i) = True"
| "is_dummy r = False"

text \<open>Modelled from the spec: the tokenizer of the factory (rule_factory.py is
  missing): "tokenize both answers into word sets". An answer is cut at white space;
  a word that occurs twice is kept where it occurs first, so that the order of the
  words is the order of the answer.\<close>

definition is_space :: "char \<Rightarrow> bool" where
  "is_space c = (c \<in> set [CHR '' '', CHR 0x09, CHR 0x0A, CHR 0x0B, CHR 0x0C, CHR 0x0D])"

fun split_words :: "string \<Rightarrow> string \<Rightarrow> string list" where
  "split_words w [] = (if w = [] then [] else [w])"
| "split_words w (c # cs) =
     (if is_space c then (if w = [] then split_words [] cs else w # split_words [] cs)
      else split_words (w @ [c]) cs)"

definition word_set :: "string \<Rightarrow> string list" where
  "word_set answer = rev (remdups (rev (split_words [] answer)))"

text \<open>Modelled from the spec: the keyword pool of the factory (rule_factory.py is
  missing): "used keywords are the union of get_keywords() over every Rule in
  existing_rules; candidate keywords are the symmetric difference of the two answers'
  word sets minus used keywords". The pool is "order-stable": the words of the own
  answer come first, then those of the foil answer, each in the order of its answer.\<close>

definition used_keywords :: "Rule list \<Rightarrow> string list" where
  "used_keywords existing_rules = concat (map get_keywords existing_rules)"

definition candidate_keywords :: "Rule list \<Rightarrow> string \<Rightarrow> string \<Rightarrow> string list" where
  "candidate_keywords existing_rules answer_self answer_foil =
     (let ws = word_set answer_self; wf = word_set answer_foil;
          used = used_keywords existing_rules
      in [k \<leftarrow> ws. k \<notin> set wf \<and> k \<notin> set used] @ [k \<leftarrow> wf. k \<notin> set ws \<and> k \<notin> set used])"

text \<open>Modelled from the spec: what the specification leaves to the missing
  rule_factory.py is a parameter of the model: the two catalogs
  (\<^verbatim>\<open>BASELINE_RULES\<close>, \<^verbatim>\<open>EXTENDED_RULES\<close>), the kind-level conflict table of the
  compatibility oracle, the target count of a frequency rule, and the "fixed or
  randomly-parameterized rule-kind-specific logic" of the non-keyword kinds, which
  may depend on the version ("affects only which kind-specific generation policy may
  be used"). A kind with no entry in \<open>kind_policy\<close> is an unrecognized one. The
  number these functions take first is the draw from the "injected seeded source".\<close>

record factory_config =
  BASELINE_RULES :: "RuleId list"
  EXTENDED_RULES :: "RuleId list"
  conflicts :: "RuleId \<Rightarrow> RuleId \<Rightarrow> bool"
  frequency_target :: "nat \<Rightarrow> string \<Rightarrow> nat"
  kind_policy :: "IfEvalVersion \<Rightarrow> nat \<rightharpoonup> (nat \<Rightarrow> nat)"

datatype factory_error = InvalidArgument

text \<open>Modelled from the spec: the catalog lookup (rule_factory.py is missing):
  "NONE -> the union of all known RuleIds, V1 -> BASELINE_RULES,
  V2 -> EXTENDED_RULES".\<close>

fun rules_for_version :: "factory_config \<Rightarrow> IfEvalVersion \<Rightarrow> RuleId list" where
  "rules_for_version cfg NONE = remdups (BASELINE_RULES cfg @ EXTENDED_RULES cfg)"
| "rules_for_version cfg V1 = BASELINE_RULES cfg"
| "rules_for_version cfg V2 = EXTENDED_RULES cfg"

text \<open>Modelled from the spec: \<^verbatim>\<open>is_rule_incompatible(candidate_id, existing_rules)\<close>
  (rule_factory.py is missing): incompatibility "is evaluated purely at the kind
  level", against every rule already selected.\<close>

definition is_rule_incompatible :: "factory_config \<Rightarrow> RuleId \<Rightarrow> Rule list \<Rightarrow> bool" where
  "is_rule_incompatible cfg candidate_id existing_rules =
     list_ex (\<lambda>r. conflicts cfg candidate_id (rule_id r)) existing_rules"

text \<open>Modelled from the spec: \<^verbatim>\<open>generate_rule(rule_id, existing_rules, qa_self,
  qa_foil, version)\<close> (rule_factory.py is missing). For a keyword-based kind the rule is
  anchored on the candidate keywords; "if the candidate pool is empty, the factory
  falls back to a DummyRule for that kind". A non-keyword kind is built by its own
  logic, and "an unrecognized rule_id fails with an InvalidArgument-style error".\<close>

fun generate_rule ::
  "factory_config \<Rightarrow> nat \<Rightarrow> RuleId \<Rightarrow> Rule list \<Rightarrow> string \<times> string \<Rightarrow> string \<times> string
    \<Rightarrow> IfEvalVersion \<Rightarrow> factory_error + Rule" where
  "generate_rule cfg d KEYWORD_INCLUSION existing_rules qa_self qa_foil version =
     (let pool = candidate_keywords existing_rules (snd qa_self) (snd qa_foil)
      in Inr (if pool = [] then DummyRule KEYWORD_INCLUSION else KeywordInclusionRule pool))"
| "generate_rule cfg d KEYWORD_FREQUENCY existing_rules qa_self qa_foil version =
     (let pool = candidate_keywords existing_rules (snd qa_self) (snd qa_foil)
      in Inr (if pool = [] then DummyRule KEYWORD_FREQUENCY
              else KeywordFrequencyRule (map (\<lambda>k. (k, frequency_target cfg d k)) pool)))"
| "generate_rule cfg d KEYWORD_FORBIDDEN existing_rules qa_self qa_foil version =
     (let pool = candidate_keywords existing_rules (snd qa_self) (snd qa_foil)
      in Inr (if pool = [] then DummyRule KEYWORD_FORBIDDEN else KeywordForbiddenRule pool))"
| "generate_rule cfg d (OTHER_RULE k) existing_rules qa_self qa_foil version =
     (case kind_policy cfg version k of
        None \<Rightarrow> Inl InvalidArgument
      | Some logic \<Rightarrow> Inr (OtherRule (OTHER_RULE k) (logic d)))"

text \<open>Modelled from the spec: \<^verbatim>\<open>generate_if_eval_sample(qa_self, qa_foil, min_rules,
  max_rules, version)\<close> (rule_factory.py is missing), section 4.5: resolve the catalog,
  choose the rule count in \<open>[min_rules, max_rules]\<close>, then "repeat up to n times:
  sample a RuleId from the catalog excluding already-chosen kinds and any kind for
  which is_rule_incompatible(candidate, committed_instances) is true; call the
  Factory; if the result is a DummyRule, discard it and retry with a different
  candidate; otherwise commit it", and "stop early if no compatible, unchosen RuleId
  remains". A kind is tried once, which bounds the retries by the size of the
  catalog. \<open>source\<close> is the seeded random source, read at position \<open>pos\<close>.\<close>

record IfEvalSample =
  rules :: "Rule list"

record sampling =
  config :: factory_config
  source :: "nat \<Rightarrow> nat"
  own_qa :: "string \<times> string"
  foil_qa :: "string \<times> string"
  active_version :: IfEvalVersion

definition candidates :: "sampling \<Rightarrow> RuleId list \<Rightarrow> Rule list \<Rightarrow> RuleId list" where
  "candidates s tried committed =
     [i \<leftarrow> rules_for_version (config s) (active_version s).
        i \<notin> set tried \<and> \<not> is_rule_incompatible (config s) i committed]"

function fill_sample ::
  "sampling \<Rightarrow> nat \<Rightarrow> RuleId list \<Rightarrow> Rule list \<Rightarrow> nat \<Rightarrow> factory_error + Rule list" where
  "fill_sample s n tried committed pos =
     (if n = 0 \<or> candidates s tried committed = [] then Inr committed
      else
        (let cs = candidates s tried committed;
             i = cs ! (source s pos mod length cs)
         in case generate_rule (config s) (source s (pos + 1)) i committed
                   (own_qa s) (foil_qa s) (active_version s) of
              Inl e \<Rightarrow> Inl e
            | Inr r \<Rightarrow>
                if is_dummy r then fill_sample s n (i # tried) committed (pos + 2)
                else fill_sample s (n - 1) (i # tried) (committed @ [r]) (pos + 2)))"
  by pat_completeness auto
termination
proof (relation "measure (\<lambda>(s, n, tried, committed, pos).
         card (set (rules_for_version (config s) (active_version s)) - set tried))")
  show "wf (measure (\<lambda>(s, n, tried, committed, pos).
         card (set (rules_for_version (config s) (active_version s)) - set tried)))"
    by simp
next
  fix s :: sampling and n :: nat and tried :: "RuleId list" and committed :: "Rule list"
    and pos :: nat and cs i
  assume ne: "\<not> (n = 0 \<or> candidates s tried committed = [])"
    and cs: "cs = candidates s tried committed"
    and i: "i = cs ! (source s pos mod length cs)"
  from ne cs have "cs \<noteq> []" by simp
  then have "i \<in> set cs" using i by simp
  then have mem: "i \<in> set (rules_for_version (config s) (active_version s)) - set tried"
    using cs by (simp add: candidates_def)
  have "set (rules_for_version (config s) (active_version s)) - set (i # tried)
        \<subset> set (rules_for_version (config s) (active_version s)) - set tried"
    using mem by auto
  then have less: "card (set (rules_for_version (config s) (active_version s)) - set (i # tried))
        < card (set (rules_for_version (config s) (active_version s)) - set tried)"
    by (intro psubset_card_mono) auto
  {
    fix x2 assume "is_dummy x2"
    show "((s, n, i # tried, committed, pos + 2), s, n, tried, committed, pos)
            \<in> measure (\<lambda>(s, n, tried, committed, pos).
                card (set (rules_for_version (config s) (active_version s)) - set tried))"
      using less by simp
  next
    fix x2 assume "\<not> is_dummy x2"
    show "((s, n - 1, i # tried, committed @ [x2], pos + 2), s, n, tried, committed, pos)
            \<in> measure (\<lambda>(s, n, tried, committed, pos).
                card (set (rules_for_version (config s) (active_version s)) - set tried))"
      using less by simp
  }
qed

declare fill_sample.simps [simp del]

definition generate_if_eval_sample ::
  "factory_config \<Rightarrow> (nat \<Rightarrow> nat) \<Rightarrow> string \<times> string \<Rightarrow> string \<times> string \<Rightarrow> nat \<Rightarrow> nat
    \<Rightarrow> IfEvalVersion \<Rightarrow> factory_error + IfEvalSample" where
  "generate_if_eval_sample cfg src qa_self qa_foil min_rules max_rules version =
     (let n = min_rules + src 0 mod (max_rules - min_rules + 1)
      in case fill_sample \<lparr>config = cfg, source = src, own_qa = qa_self,
                           foil_qa = qa_foil, active_version = version\<rparr> n [] [] 1 of
           Inl e \<Rightarrow> Inl e
         | Inr rs \<Rightarrow> Inr \<lparr>rules = rs\<rparr>)"


section \<open>Example inputs\<close>

text \<open>A world with one competition (number 1), whose chain refuses the first commit
  and accepts the second, and a model to push into it.\<close>

definition example_id :: ModelId where
  "example_id = \<lparr>namespace = ''ns'', name = ''nm'', competition_id = 1,
                  hash = Some ''h'', secure_hash = Some ''s''\<rparr>"

definition example_store :: ModelMetadataStore where
  "example_store =
     \<lparr>store_model_metadata = (\<lambda>k hotkey i. if k = 0 then Some OtherError else None),
      retrieve_model_metadata =
        (\<lambda>k uid hotkey. Inr (Some \<lparr>metadata_id = example_id, block = 0\<rparr>))\<rparr>"

definition example_world :: "(unit, unit) world" where
  "example_world =
     \<lparr>MODEL_CONSTRAINTS_BY_COMPETITION_ID = [1 \<mapsto> ()],
      SUBNET_UID = 37,
      validate_hf_repo_id =
        (\<lambda>repo. if repo = ''ns/nm'' then Inr (''ns'', ''nm'') else Inl ValueError),
      get_hash_of_two_strings = (\<lambda>h k. ''s''),
      to_compressed_str =
        (\<lambda>i. namespace i @ '':'' @ name i @ '':'' @
              (case secure_hash i of None \<Rightarrow> [] | Some x \<Rightarrow> x)),
      get_uid_for_hotkey_on_subnet = (\<lambda>k hotkey netuid. Inr 3),
      ChainModelMetadataStore = (\<lambda>netuid wal. example_store),
      HuggingFaceModelStore =
        \<lparr>upload_model = (\<lambda>m c. Inr ((model_id m)\<lparr>hash := Some ''h''\<rparr>))\<rparr>,
      update_repo_visibility = (\<lambda>repo. None)\<rparr>"

definition example_model :: "unit Model" where
  "example_model =
     \<lparr>model_id = \<lparr>namespace = ''old'', name = ''old'', competition_id = 0,
                   hash = None, secure_hash = None\<rparr>,
      pt_model = ()\<rparr>"

text \<open>Loader classes that refuse a keyword \<^verbatim>\<open>self\<close> and otherwise build a loader that
  remembers its class and what it was given as \<^verbatim>\<open>name\<close>, \<^verbatim>\<open>random_seed\<close>,
  \<^verbatim>\<open>validator_hotkeys\<close> and \<^verbatim>\<open>n\<close>.\<close>

definition example_make ::
  "loader_class \<Rightarrow> (string \<rightharpoonup> int argument)
    \<Rightarrow> error + loader_class \<times> int argument option list" where
  "example_make c args =
     (if args ''self'' \<noteq> None then Inl TypeError
      else Inr (c, [args ''name'', args ''random_seed'', args ''validator_hotkeys'',
                    args ''n'']))"

text \<open>A factory configuration with two keyword kinds and two other kinds that conflict
  with each other.\<close>

definition example_config :: factory_config where
  "example_config =
     \<lparr>BASELINE_RULES = [KEYWORD_INCLUSION, OTHER_RULE 0],
      EXTENDED_RULES = [KEYWORD_INCLUSION, OTHER_RULE 0, KEYWORD_FORBIDDEN, OTHER_RULE 1],
      conflicts = (\<lambda>a b. a = OTHER_RULE 0 \<and> b = OTHER_RULE 1
                        \<or> a = OTHER_RULE 1 \<and> b = OTHER_RULE 0),
      frequency_target = (\<lambda>d k. 1 + d mod 3),
      kind_policy = (\<lambda>v. [0 \<mapsto> (\<lambda>d. d), 1 \<mapsto> (\<lambda>d. 2 * d)])\<rparr>"

section \<open>Properties of the dataset-loader dispatch\<close>

lemma passed_simps:
  "passed [] kw k = map_option Kwarg (kw k)"
  "passed ((k', a) # explicit) kw k = (if k = k' then Some a else passed explicit kw k)"
  by (simp_all add: passed_def)

text \<open>
  C8, as stated, fails: the dispatch is not total. For \<^verbatim>\<open>SYNTHETIC_MMLU\<close> the
  \<^verbatim>\<open>match\<close> raises \<^verbatim>\<open>NotImplementedError\<close> ("Prompting dataset is not implemented and
  should be loaded elsewhere."), whatever the other arguments and the loader classes
  are.
\<close>

theorem get_loader_raises_counterexample:
  "get_loader example_make SYNTHETIC_MMLU Map.empty 0 {} = Inl NotImplementedError"
  by simp

text \<open>
  C8, amended: \<^verbatim>\<open>get_loader\<close> is a lookup from the identifier to the loader class.
  For \<^verbatim>\<open>SYNTHETIC_MMLU\<close> it raises \<^verbatim>\<open>NotImplementedError\<close> and for an identifier the
  \<^verbatim>\<open>match\<close> does not name it raises \<^verbatim>\<open>ValueError\<close>. For each of the other six
  identifiers there is one loader class \<open>c\<close>, determined by \<^verbatim>\<open>dataset_id\<close> alone (the
  same for every keyword dictionary, seed and set of hotkeys, and whatever the classes
  do), such that \<^verbatim>\<open>get_loader\<close> raises \<^verbatim>\<open>TypeError\<close> when \<^verbatim>\<open>dataset_kwargs\<close> repeats a
  keyword that the call passes explicitly, and otherwise calls that class once and
  returns, or raises, what the class does.
\<close>

theorem get_loader_class_by_id:
  "get_loader ctor SYNTHETIC_MMLU kw seed vh = Inl NotImplementedError
   \<and> get_loader ctor (OTHER_DATASET n) kw seed vh = Inl ValueError
   \<and> (d \<noteq> SYNTHETIC_MMLU \<and> (\<forall>n. d \<noteq> OTHER_DATASET n) \<longrightarrow>
        (\<exists>c args. \<forall>kw' seed' vh' m.
           get_loader m d kw' seed' vh' =
             (if kw' ''random_seed'' \<noteq> None \<or> d = FINEWEB \<and> kw' ''name'' \<noteq> None
                 \<or> d = SYNTHETIC_IF_EVAL \<and> kw' ''validator_hotkeys'' \<noteq> None
              then Inl TypeError else m c (args kw' seed' vh'))))"
proof (intro conjI impI)
  show "get_loader ctor SYNTHETIC_MMLU kw seed vh = Inl NotImplementedError" by simp
  show "get_loader ctor (OTHER_DATASET n) kw seed vh = Inl ValueError" by simp
  assume known: "d \<noteq> SYNTHETIC_MMLU \<and> (\<forall>n. d \<noteq> OTHER_DATASET n)"
  show "\<exists>c args. \<forall>kw' seed' vh' m.
           get_loader m d kw' seed' vh' =
             (if kw' ''random_seed'' \<noteq> None \<or> d = FINEWEB \<and> kw' ''name'' \<noteq> None
                 \<or> d = SYNTHETIC_IF_EVAL \<and> kw' ''validator_hotkeys'' \<noteq> None
              then Inl TypeError else m c (args kw' seed' vh'))"
  proof (cases d)
    case DYCK_LANGUAGE
    show ?thesis unfolding DYCK_LANGUAGE
      by (rule exI [of _ DyckLoader],
          rule exI [of _ "\<lambda>kw' seed' vh'. passed [(''random_seed'', Seed_arg seed')] kw'"])
         (simp add: call_def)
  next
    case SYNTHETIC_MMLU
    with known show ?thesis by simp
  next
    case WORD_SORTING
    show ?thesis unfolding WORD_SORTING
      by (rule exI [of _ WordSortingLoader],
          rule exI [of _ "\<lambda>kw' seed' vh'. passed [(''random_seed'', Seed_arg seed')] kw'"])
         (simp add: call_def)
  next
    case FINEWEB
    show ?thesis unfolding FINEWEB
      by (rule exI [of _ HuggingFaceLoader],
          rule exI [of _ "\<lambda>kw' seed' vh'. passed [(''name'', Name_arg FINEWEB_EDU_SCORE_2_NAME),
                                                  (''random_seed'', Seed_arg seed')] kw'"])
         (auto simp: call_def)
  next
    case SYNTHETIC_IF_EVAL
    show ?thesis unfolding SYNTHETIC_IF_EVAL
      by (rule exI [of _ IFEvalLoader],
          rule exI [of _ "\<lambda>kw' seed' vh'. passed [(''random_seed'', Seed_arg seed'),
                                                  (''validator_hotkeys'', Hotkeys_arg vh')] kw'"])
         (auto simp: call_def)
  next
    case SYNTHETIC_1_SFT
    show ?thesis unfolding SYNTHETIC_1_SFT
      by (rule exI [of _ Synthetic1SFTLoader],
          rule exI [of _ "\<lambda>kw' seed' vh'. passed [(''random_seed'', Seed_arg seed')] kw'"])
         (simp add: call_def)
  next
    case CODEFORCES_COTS
    show ?thesis unfolding CODEFORCES_COTS
      by (rule exI [of _ CodeforcesCOTSLoader],
          rule exI [of _ "\<lambda>kw' seed' vh'. passed [(''random_seed'', Seed_arg seed')] kw'"])
         (simp add: call_def)
  next
    case (OTHER_DATASET k)
    with known show ?thesis by simp
  qed
qed

theorem get_loader_class_by_id_witness:
  "get_loader (\<lambda>c args. Inr c) DYCK_LANGUAGE (Map.empty :: string \<rightharpoonup> int) 1 {} = Inr DyckLoader
   \<and> get_loader (\<lambda>c args. Inr c) WORD_SORTING [''n'' \<mapsto> (3::int)] 2 {''hk''} = Inr WordSortingLoader
   \<and> get_loader (\<lambda>c args. Inr c) FINEWEB [''n'' \<mapsto> (3::int)] 3 {} = Inr HuggingFaceLoader
   \<and> get_loader (\<lambda>c args. Inr c) SYNTHETIC_IF_EVAL [''n'' \<mapsto> (3::int)] 4 {''hk''} = Inr IFEvalLoader
   \<and> get_loader (\<lambda>c args. Inr c) SYNTHETIC_1_SFT [''n'' \<mapsto> (3::int)] 5 {} = Inr Synthetic1SFTLoader
   \<and> get_loader (\<lambda>c args. Inr c) CODEFORCES_COTS [''n'' \<mapsto> (3::int)] 6 {} = Inr CodeforcesCOTSLoader
   \<and> get_loader (\<lambda>c args. Inr c) FINEWEB [''name'' \<mapsto> (3::int)] 3 {} = Inl TypeError
   \<and> get_loader example_make DYCK_LANGUAGE [''self'' \<mapsto> 1] 1 {} = Inl TypeError
   \<and> FINEWEB \<noteq> SYNTHETIC_MMLU \<and> (\<forall>n. FINEWEB \<noteq> OTHER_DATASET n)"
  using get_loader_class_by_id [of "\<lambda>c args. Inr c" "Map.empty :: string \<rightharpoonup> int" 1 "{}" 0 DYCK_LANGUAGE]
    get_loader_class_by_id [of "\<lambda>c args. Inr c" "Map.empty :: string \<rightharpoonup> int" 1 "{}" 0 WORD_SORTING]
    get_loader_class_by_id [of "\<lambda>c args. Inr c" "Map.empty :: string \<rightharpoonup> int" 1 "{}" 0 FINEWEB]
    get_loader_class_by_id [of "\<lambda>c args. Inr c" "Map.empty :: string \<rightharpoonup> int" 1 "{}" 0 SYNTHETIC_IF_EVAL]
    get_loader_class_by_id [of "\<lambda>c args. Inr c" "Map.empty :: string \<rightharpoonup> int" 1 "{}" 0 SYNTHETIC_1_SFT]
    get_loader_class_by_id [of "\<lambda>c args. Inr c" "Map.empty :: string \<rightharpoonup> int" 1 "{}" 0 CODEFORCES_COTS]
  by (simp add: call_def example_make_def passed_simps)

text \<open>
  C9: for every identifier that \<^verbatim>\<open>get_loader\<close> maps to a loader class (each one the
  \<^verbatim>\<open>match\<close> names except \<^verbatim>\<open>SYNTHETIC_MMLU\<close>), the class is called, unless
  \<^verbatim>\<open>dataset_kwargs\<close> repeats an explicit keyword, with keyword arguments in which
  \<^verbatim>\<open>random_seed\<close> is the \<^verbatim>\<open>seed\<close> argument, and what \<^verbatim>\<open>get_loader\<close> returns is what that
  call returns. The \<^verbatim>\<open>validator_hotkeys\<close> argument is among the keyword arguments, under
  the keyword \<^verbatim>\<open>validator_hotkeys\<close>, exactly when the identifier is
  \<^verbatim>\<open>SYNTHETIC_IF_EVAL\<close>; for every other identifier the result does not depend on it.
\<close>

theorem get_loader_seed_and_hotkeys:
  assumes "d \<noteq> SYNTHETIC_MMLU" and "\<forall>n. d \<noteq> OTHER_DATASET n"
  shows "\<exists>c args.
      (\<forall>m. get_loader m d kw seed vh =
         (if kw ''random_seed'' \<noteq> None \<or> d = FINEWEB \<and> kw ''name'' \<noteq> None
             \<or> d = SYNTHETIC_IF_EVAL \<and> kw ''validator_hotkeys'' \<noteq> None
          then Inl TypeError else m c args))
      \<and> args ''random_seed'' = Some (Seed_arg seed)
      \<and> (\<forall>k. args k = Some (Hotkeys_arg vh) \<longleftrightarrow> d = SYNTHETIC_IF_EVAL \<and> k = ''validator_hotkeys'')
      \<and> (d \<noteq> SYNTHETIC_IF_EVAL \<longrightarrow>
           (\<forall>m vh'. get_loader m d kw seed vh' = get_loader m d kw seed vh))"
proof (cases d)
  case DYCK_LANGUAGE
  show ?thesis unfolding DYCK_LANGUAGE
    by (rule exI [of _ DyckLoader], rule exI [of _ "passed [(''random_seed'', Seed_arg seed)] kw"])
       (auto simp: call_def passed_simps)
next
  case SYNTHETIC_MMLU
  with assms show ?thesis by simp
next
  case WORD_SORTING
  show ?thesis unfolding WORD_SORTING
    by (rule exI [of _ WordSortingLoader],
        rule exI [of _ "passed [(''random_seed'', Seed_arg seed)] kw"])
       (auto simp: call_def passed_simps)
next
  case FINEWEB
  show ?thesis unfolding FINEWEB
    by (rule exI [of _ HuggingFaceLoader],
        rule exI [of _ "passed [(''name'', Name_arg FINEWEB_EDU_SCORE_2_NAME),
                                (''random_seed'', Seed_arg seed)] kw"])
       (auto simp: call_def passed_simps)
next
  case SYNTHETIC_IF_EVAL
  show ?thesis unfolding SYNTHETIC_IF_EVAL
    by (rule exI [of _ IFEvalLoader],
        rule exI [of _ "passed [(''random_seed'', Seed_arg seed),
                                (''validator_hotkeys'', Hotkeys_arg vh)] kw"])
       (auto simp: call_def passed_simps)
next
  case SYNTHETIC_1_SFT
  show ?thesis unfolding SYNTHETIC_1_SFT
    by (rule exI [of _ Synthetic1SFTLoader],
        rule exI [of _ "passed [(''random_seed'', Seed_arg seed)] kw"])
       (auto simp: call_def passed_simps)
next
  case CODEFORCES_COTS
  show ?thesis unfolding CODEFORCES_COTS
    by (rule exI [of _ CodeforcesCOTSLoader],
        rule exI [of _ "passed [(''random_seed'', Seed_arg seed)] kw"])
       (auto simp: call_def passed_simps)
next
  case (OTHER_DATASET k)
  with assms show ?thesis by simp
qed

theorem get_loader_seed_and_hotkeys_witness:
  "get_loader example_make DYCK_LANGUAGE [''n'' \<mapsto> 3] 7 {''hk1''}
     = Inr (DyckLoader, [None, Some (Seed_arg 7), None, Some (Kwarg 3)])
   \<and> get_loader example_make WORD_SORTING [''n'' \<mapsto> 3] 7 {''hk1''}
     = Inr (WordSortingLoader, [None, Some (Seed_arg 7), None, Some (Kwarg 3)])
   \<and> get_loader example_make FINEWEB [''n'' \<mapsto> 3] 7 {''hk1''}
     = Inr (HuggingFaceLoader,
            [Some (Name_arg FINEWEB_EDU_SCORE_2_NAME), Some (Seed_arg 7), None, Some (Kwarg 3)])
   \<and> get_loader example_make SYNTHETIC_IF_EVAL [''n'' \<mapsto> 3] 7 {''hk1''}
     = Inr (IFEvalLoader, [None, Some (Seed_arg 7), Some (Hotkeys_arg {''hk1''}), Some (Kwarg 3)])
   \<and> get_loader example_make SYNTHETIC_1_SFT [''n'' \<mapsto> 3] 7 {''hk1''}
     = Inr (Synthetic1SFTLoader, [None, Some (Seed_arg 7), None, Some (Kwarg 3)])
   \<and> get_loader example_make CODEFORCES_COTS [''n'' \<mapsto> 3] 7 {''hk1''}
     = Inr (CodeforcesCOTSLoader, [None, Some (Seed_arg 7), None, Some (Kwarg 3)])
   \<and> get_loader example_make WORD_SORTING [''random_seed'' \<mapsto> 3] 7 {''hk1''} = Inl TypeError
   \<and> get_loader example_make SYNTHETIC_IF_EVAL [''validator_hotkeys'' \<mapsto> 3] 7 {''hk1''}
     = Inl TypeError"
  using get_loader_seed_and_hotkeys [of DYCK_LANGUAGE "[''n'' \<mapsto> (3::int)]" 7 "{''hk1''}"]
    get_loader_seed_and_hotkeys [of WORD_SORTING "[''n'' \<mapsto> (3::int)]" 7 "{''hk1''}"]
    get_loader_seed_and_hotkeys [of FINEWEB "[''n'' \<mapsto> (3::int)]" 7 "{''hk1''}"]
    get_loader_seed_and_hotkeys [of SYNTHETIC_IF_EVAL "[''n'' \<mapsto> (3::int)]" 7 "{''hk1''}"]
    get_loader_seed_and_hotkeys [of SYNTHETIC_1_SFT "[''n'' \<mapsto> (3::int)]" 7 "{''hk1''}"]
    get_loader_seed_and_hotkeys [of CODEFORCES_COTS "[''n'' \<mapsto> (3::int)]" 7 "{''hk1''}"]
  by (simp add: call_def example_make_def passed_simps)


section \<open>Properties of push\<close>

text \<open>The example world: the competition is known, the first commit is refused and
  retried after the delay, the second is read back, and the repository is made
  public.\<close>

lemma push_example_known:
  "push example_world example_model ''ns/nm'' 1 \<lparr>hotkey_ss58_address = ''hk''\<rparr> 60 True None None =
     Some \<lparr>raised = None,
           model_after = example_model\<lparr>model_id := example_id\<lparr>hash := None, secure_hash := None\<rparr>\<rparr>,
           calls = [Subtensor,
                    Upload_model
                      (example_model\<lparr>model_id := example_id\<lparr>hash := None, secure_hash := None\<rparr>\<rparr>),
                    Store_model_metadata ''hk'' example_id, Sleep 60,
                    Store_model_metadata ''hk'' example_id,
                    Get_uid_for_hotkey_on_subnet ''hk'' 37,
                    Retrieve_model_metadata 3 ''hk'',
                    Update_repo_visibility ''ns/nm'']\<rparr>"
  by (simp add: push_def example_world_def example_model_def example_id_def example_store_def
        commit_loop.simps attempt_def finish_push_def Let_def)

text \<open>
  C10: when \<^verbatim>\<open>competition_id\<close> has no entry in
  \<^verbatim>\<open>MODEL_CONSTRAINTS_BY_COMPETITION_ID\<close>, \<^verbatim>\<open>push\<close> returns (it does not enter the
  retry loop) by raising \<^verbatim>\<open>ValueError\<close>. Until then it has only opened the
  \<^verbatim>\<open>subtensor\<close> connection: the trace holds no upload to the model store, no commit of
  metadata to the chain and no change of the repository's visibility, and the model
  object still has the \<^verbatim>\<open>id\<close> it came with.
\<close>

theorem push_unknown_competition:
  assumes "MODEL_CONSTRAINTS_BY_COMPETITION_ID w cid = None"
  shows "push w model repo cid wal retry_delay_secs update_visibility metadata_store
           remote_model_store
         = Some \<lparr>raised = Some ValueError, model_after = model, calls = [Subtensor]\<rparr>"
  using assms by (simp add: push_def)

theorem push_unknown_competition_witness:
  "MODEL_CONSTRAINTS_BY_COMPETITION_ID example_world 2 = None
   \<and> push example_world example_model ''ns/nm'' 2 \<lparr>hotkey_ss58_address = ''hk''\<rparr> 60 True None None
       = Some \<lparr>raised = Some ValueError, model_after = example_model, calls = [Subtensor]\<rparr>"
proof -
  have h: "MODEL_CONSTRAINTS_BY_COMPETITION_ID example_world 2 = None"
    by (simp add: example_world_def)
  from push_unknown_competition [OF h] h show ?thesis by simp
qed


section \<open>Properties of the rule factory\<close>

lemma word_set_cat_dog: "word_set ''cat dog'' = [''cat'', ''dog'']"
  by (simp add: word_set_def is_space_def)

lemma word_set_cat_bird: "word_set ''cat bird'' = [''cat'', ''bird'']"
  by (simp add: word_set_def is_space_def)

lemma set_used_keywords:
  "set (used_keywords existing) = (\<Union>e\<in>set existing. set (get_keywords e))"
  by (simp add: used_keywords_def)

lemma candidate_keywords_cat_dog_bird:
  "candidate_keywords existing ''cat dog'' ''cat bird'' =
     filter (\<lambda>k. k \<notin> (\<Union>e\<in>set existing. set (get_keywords e))) [''dog'', ''bird'']"
  by (simp add: candidate_keywords_def word_set_cat_dog word_set_cat_bird set_used_keywords)

lemma set_candidate_keywords:
  "set (candidate_keywords existing a b) =
     ((set (word_set a) - set (word_set b)) \<union> (set (word_set b) - set (word_set a)))
       - (\<Union>e\<in>set existing. set (get_keywords e))"
  by (auto simp: candidate_keywords_def Let_def set_used_keywords)

lemma distinct_candidate_keywords: "distinct (candidate_keywords existing a b)"
  by (auto simp: candidate_keywords_def Let_def word_set_def)

lemma generated_keywords:
  "map_sum id get_keywords (generate_rule cfg d KEYWORD_INCLUSION ex qs qf v)
     = Inr (candidate_keywords ex (snd qs) (snd qf))"
  "map_sum id get_keywords (generate_rule cfg d KEYWORD_FREQUENCY ex qs qf v)
     = Inr (candidate_keywords ex (snd qs) (snd qf))"
  "map_sum id get_keywords (generate_rule cfg d KEYWORD_FORBIDDEN ex qs qf v)
     = Inr (candidate_keywords ex (snd qs) (snd qf))"
  by (simp_all add: Let_def comp_def)

lemma generated_keywords_set:
  assumes "map_sum id get_keywords r = Inr (candidate_keywords existing a b)"
  shows "\<exists>ks. map_sum id get_keywords r = Inr ks \<and> distinct ks \<and>
           set ks = ((set (word_set a) - set (word_set b)) \<union> (set (word_set b) - set (word_set a)))
                    - (\<Union>e\<in>set existing. set (get_keywords e))"
  using assms distinct_candidate_keywords [of existing a b]
    set_candidate_keywords [of existing a b] by blast

text \<open>
  C2: for each keyword-based kind (inclusion, frequency, forbidden), the keywords of
  the rule that \<^verbatim>\<open>generate_rule\<close> returns are, without repetition, the words of the
  symmetric difference of the two answers' word sets that are not among the
  \<^verbatim>\<open>get_keywords()\<close> of any existing rule. With the answers "cat dog" and "cat bird"
  and one existing keyword rule of either other kind anchored on "cat",
  \<^verbatim>\<open>get_keywords()\<close> of the new rule is exactly \<open>[''dog'', ''bird'']\<close>, in that order,
  whatever the questions, the version, the configuration and the random draw are. An
  existing rule anchored on "dog" or on "bird" takes that word away from the new
  rule, and when both are taken the factory returns the \<^verbatim>\<open>DummyRule\<close> of the kind.
\<close>

theorem generate_rule_keywords_non_collision:
  "map_sum id get_keywords
     (generate_rule cfg d KEYWORD_INCLUSION [KeywordFrequencyRule [(''cat'', n)]]
        (q1, ''cat dog'') (q2, ''cat bird'') v) = Inr [''dog'', ''bird'']
   \<and> map_sum id get_keywords
     (generate_rule cfg d KEYWORD_INCLUSION [KeywordForbiddenRule [''cat'']]
        (q1, ''cat dog'') (q2, ''cat bird'') v) = Inr [''dog'', ''bird'']
   \<and> map_sum id get_keywords
     (generate_rule cfg d KEYWORD_FREQUENCY [KeywordInclusionRule [''cat'']]
        (q1, ''cat dog'') (q2, ''cat bird'') v) = Inr [''dog'', ''bird'']
   \<and> map_sum id get_keywords
     (generate_rule cfg d KEYWORD_FREQUENCY [KeywordForbiddenRule [''cat'']]
        (q1, ''cat dog'') (q2, ''cat bird'') v) = Inr [''dog'', ''bird'']
   \<and> map_sum id get_keywords
     (generate_rule cfg d KEYWORD_FORBIDDEN [KeywordInclusionRule [''cat'']]
        (q1, ''cat dog'') (q2, ''cat bird'') v) = Inr [''dog'', ''bird'']
   \<and> map_sum id get_keywords
     (generate_rule cfg d KEYWORD_FORBIDDEN [KeywordFrequencyRule [(''cat'', n)]]
        (q1, ''cat dog'') (q2, ''cat bird'') v) = Inr [''dog'', ''bird'']
   \<and> map_sum id get_keywords
     (generate_rule cfg d KEYWORD_INCLUSION [KeywordForbiddenRule [''dog'']]
        (q1, ''cat dog'') (q2, ''cat bird'') v) = Inr [''bird'']
   \<and> map_sum id get_keywords
     (generate_rule cfg d KEYWORD_FREQUENCY [KeywordInclusionRule [''bird'']]
        (q1, ''cat dog'') (q2, ''cat bird'') v) = Inr [''dog'']
   \<and> generate_rule cfg d KEYWORD_FORBIDDEN
        [KeywordInclusionRule [''dog''], KeywordFrequencyRule [(''bird'', n)]]
        (q1, ''cat dog'') (q2, ''cat bird'') v = Inr (DummyRule KEYWORD_FORBIDDEN)
   \<and> (\<exists>ks. map_sum id get_keywords
              (generate_rule cfg d KEYWORD_INCLUSION existing (q1, answer_self) (q2, answer_foil) v)
            = Inr ks \<and> distinct ks \<and>
            set ks = ((set (word_set answer_self) - set (word_set answer_foil))
                       \<union> (set (word_set answer_foil) - set (word_set answer_self)))
                     - (\<Union>e\<in>set existing. set (get_keywords e)))
   \<and> (\<exists>ks. map_sum id get_keywords
              (generate_rule cfg d KEYWORD_FREQUENCY existing (q1, answer_self) (q2, answer_foil) v)
            = Inr ks \<and> distinct ks \<and>
            set ks = ((set (word_set answer_self) - set (word_set answer_foil))
                       \<union> (set (word_set answer_foil) - set (word_set answer_self)))
                     - (\<Union>e\<in>set existing. set (get_keywords e)))
   \<and> (\<exists>ks. map_sum id get_keywords
              (generate_rule cfg d KEYWORD_FORBIDDEN existing (q1, answer_self) (q2, answer_foil) v)
            = Inr ks \<and> distinct ks \<and>
            set ks = ((set (word_set answer_self) - set (word_set answer_foil))
                       \<union> (set (word_set answer_foil) - set (word_set answer_self)))
                     - (\<Union>e\<in>set existing. set (get_keywords e)))"
proof (intro conjI)
  show "generate_rule cfg d KEYWORD_FORBIDDEN
        [KeywordInclusionRule [''dog''], KeywordFrequencyRule [(''bird'', n)]]
        (q1, ''cat dog'') (q2, ''cat bird'') v = Inr (DummyRule KEYWORD_FORBIDDEN)"
    by (simp add: candidate_keywords_cat_dog_bird)
  show "\<exists>ks. map_sum id get_keywords
              (generate_rule cfg d KEYWORD_INCLUSION existing (q1, answer_self) (q2, answer_foil) v)
            = Inr ks \<and> distinct ks \<and>
            set ks = ((set (word_set answer_self) - set (word_set answer_foil))
                       \<union> (set (word_set answer_foil) - set (word_set answer_self)))
                     - (\<Union>e\<in>set existing. set (get_keywords e))"
    using generated_keywords_set
            [OF generated_keywords(1) [of cfg d existing "(q1, answer_self)" "(q2, answer_foil)" v]]
    by (simp only: snd_conv)
  show "\<exists>ks. map_sum id get_keywords
              (generate_rule cfg d KEYWORD_FREQUENCY existing (q1, answer_self) (q2, answer_foil) v)
            = Inr ks \<and> distinct ks \<and>
            set ks = ((set (word_set answer_self) - set (word_set answer_foil))
                       \<union> (set (word_set answer_foil) - set (word_set answer_self)))
                     - (\<Union>e\<in>set existing. set (get_keywords e))"
    using generated_keywords_set
            [OF generated_keywords(2) [of cfg d existing "(q1, answer_self)" "(q2, answer_foil)" v]]
    by (simp only: snd_conv)
  show "\<exists>ks. map_sum id get_keywords
              (generate_rule cfg d KEYWORD_FORBIDDEN existing (q1, answer_self) (q2, answer_foil) v)
            = Inr ks \<and> distinct ks \<and>
            set ks = ((set (word_set answer_self) - set (word_set answer_foil))
                       \<union> (set (word_set answer_foil) - set (word_set answer_self)))
                     - (\<Union>e\<in>set existing. set (get_keywords e))"
    using generated_keywords_set
            [OF generated_keywords(3) [of cfg d existing "(q1, answer_self)" "(q2, answer_foil)" v]]
    by (simp only: snd_conv)
qed (simp_all add: generated_keywords candidate_keywords_cat_dog_bird)

lemma fill_sample_no_dummy:
  "list_all (\<lambda>r. \<not> is_dummy r) committed \<Longrightarrow> fill_sample s n tried committed pos = Inr rs
     \<Longrightarrow> list_all (\<lambda>r. \<not> is_dummy r) rs"
proof (induction s n tried committed pos rule: fill_sample.induct)
  case (1 s n tried committed pos)
  show ?case
  proof (cases "n = 0 \<or> candidates s tried committed = []")
    case True
    with "1.prems" show ?thesis by (simp add: fill_sample.simps [of s n tried committed pos])
  next
    case False
    define cs where "cs = candidates s tried committed"
    define i where "i = cs ! (source s pos mod length cs)"
    show ?thesis
    proof (cases "generate_rule (config s) (source s (pos + 1)) i committed
                   (own_qa s) (foil_qa s) (active_version s)")
      case (Inl e)
      with False "1.prems"(2) show ?thesis
        by (simp add: fill_sample.simps [of s n tried committed pos] Let_def cs_def i_def)
    next
      case (Inr r)
      show ?thesis
      proof (cases "is_dummy r")
        case True
        with False Inr "1.prems"(2)
        have "fill_sample s n (i # tried) committed (pos + 2) = Inr rs"
          by (simp add: fill_sample.simps [of s n tried committed pos] Let_def cs_def i_def)
        with "1.IH"(1) [OF False cs_def i_def Inr True] "1.prems"(1) show ?thesis by simp
      next
        case nd: False
        with False Inr "1.prems"(2)
        have "fill_sample s (n - 1) (i # tried) (committed @ [r]) (pos + 2) = Inr rs"
          by (simp add: fill_sample.simps [of s n tried committed pos] Let_def cs_def i_def)
        moreover have "list_all (\<lambda>r. \<not> is_dummy r) (committed @ [r])"
          using "1.prems"(1) nd by simp
        ultimately show ?thesis
          using "1.IH"(2) [OF False cs_def i_def Inr nd] by simp
      qed
    qed
  qed
qed

text \<open>
  C4: a sample that \<^verbatim>\<open>generate_if_eval_sample\<close> returns holds no \<^verbatim>\<open>DummyRule\<close>, for
  every pair of question and answer, every pair of bounds, every version, every
  configuration and every random source: a rule that the factory returns as a
  \<^verbatim>\<open>DummyRule\<close> is discarded inside the loop and never committed.
\<close>

theorem generate_if_eval_sample_no_dummy:
  assumes "generate_if_eval_sample cfg src qa_self qa_foil min_rules max_rules version = Inr sample"
  shows "list_all (\<lambda>r. \<not> is_dummy r) (rules sample)"
proof -
  from assms obtain rs where
    f: "fill_sample \<lparr>config = cfg, source = src, own_qa = qa_self, foil_qa = qa_foil,
                     active_version = version\<rparr>
          (min_rules + src 0 mod (max_rules - min_rules + 1)) [] [] 1 = Inr rs"
    and s: "sample = \<lparr>rules = rs\<rparr>"
    by (cases "fill_sample \<lparr>config = cfg, source = src, own_qa = qa_self, foil_qa = qa_foil,
                     active_version = version\<rparr>
          (min_rules + src 0 mod (max_rules - min_rules + 1)) [] [] 1")
       (auto simp: generate_if_eval_sample_def Let_def)
  from fill_sample_no_dummy [OF _ f] have "list_all (\<lambda>r. \<not> is_dummy r) rs" by simp
  with s show ?thesis by simp
qed

text \<open>An example run: the inclusion rule takes both candidate keywords, the second
  kind is committed too, the forbidden-keyword kind then finds no keyword left, comes
  back as a \<^verbatim>\<open>DummyRule\<close> and is discarded, and the last kind conflicts with the
  second; the sample ends with two rules where three were asked for.\<close>

lemma example_candidates:
  "candidate_keywords [] ''a b'' ''b c'' = [''a'', ''c'']"
  "candidate_keywords [KeywordInclusionRule [''a'', ''c''], OtherRule (OTHER_RULE 0) 0] ''a b'' ''b c'' = []"
  by (simp_all add: candidate_keywords_def word_set_def used_keywords_def is_space_def)

lemma example_sample:
  "generate_if_eval_sample example_config (\<lambda>i. 0) (''Q1'', ''a b'') (''Q2'', ''b c'') 3 3 V2
     = Inr \<lparr>rules = [KeywordInclusionRule [''a'', ''c''], OtherRule (OTHER_RULE 0) 0]\<rparr>"
  by (simp add: generate_if_eval_sample_def example_config_def candidates_def
        is_rule_incompatible_def example_candidates fill_sample.simps Let_def)

theorem generate_if_eval_sample_no_dummy_witness:
  "generate_if_eval_sample example_config (\<lambda>i. 0) (''Q1'', ''a b'') (''Q2'', ''b c'') 3 3 V2
     = Inr \<lparr>rules = [KeywordInclusionRule [''a'', ''c''], OtherRule (OTHER_RULE 0) 0]\<rparr>
   \<and> list_all (\<lambda>r. \<not> is_dummy r)
        [KeywordInclusionRule [''a'', ''c''], OtherRule (OTHER_RULE 0) 0]"
proof -
  have h: "generate_if_eval_sample example_config (\<lambda>i. 0) (''Q1'', ''a b'') (''Q2'', ''b c'') 3 3 V2
     = Inr \<lparr>rules = [KeywordInclusionRule [''a'', ''c''], OtherRule (OTHER_RULE 0) 0]\<rparr>"
    by (rule example_sample)
  from generate_if_eval_sample_no_dummy [OF h] h show ?thesis by simp
qed

end
